theory Spec2Isabelle
  imports Main
begin

section \<open>The geometry substrate\<close>

text \<open>
  The module \<^verbatim>\<open>src/rendering/geometry_utils.py\<close> computes with geometry objects of an
  external planar-geometry library. The library is not part of the repository, so every
  operation the module calls on it is a field of the record \<open>substrate\<close>, and every
  function of the module takes the substrate as its first argument.

  A computation of the library that the module guards with \<^verbatim>\<open>try ... except Exception\<close>
  may raise: its field returns \<open>error + _\<close> with \<open>Inl\<close> for the exception. This holds for
  the validity test, the buffer, the set operations, the polygon constructor and the
  affine transforms. The attribute \<^verbatim>\<open>is_empty\<close> and the two constant unit shapes are used
  outside every \<^verbatim>\<open>try\<close> block, and \<^verbatim>\<open>geom_type\<close> and \<^verbatim>\<open>geoms\<close> are plain reads of a
  geometry: these are total fields.
\<close>

datatype error = GEOSException | ValueError string | InvalidSelection

text \<open>
  A Python value handed to \<^verbatim>\<open>fix_geom\<close>, whose parameter has type \<^verbatim>\<open>Any\<close>: \<^verbatim>\<open>None\<close>,
  an object that is no geometry (it has no attribute \<^verbatim>\<open>is_empty\<close>), or a geometry.
\<close>

datatype 'g py_value = PyNone | NotGeometry | Geometry 'g

record ('g, 'r) substrate =
  empty_Polygon :: 'g
    \<comment> \<open>\<^verbatim>\<open>Polygon()\<close>\<close>
  is_empty_geom :: "'g \<Rightarrow> bool"
    \<comment> \<open>\<^verbatim>\<open>g.is_empty\<close>\<close>
  is_valid :: "'g \<Rightarrow> error + bool"
    \<comment> \<open>\<^verbatim>\<open>g.is_valid\<close>\<close>
  geom_type :: "'g \<Rightarrow> string"
    \<comment> \<open>\<^verbatim>\<open>g.geom_type\<close>\<close>
  geoms :: "'g \<Rightarrow> 'g list"
    \<comment> \<open>\<^verbatim>\<open>g.geoms\<close>\<close>
  buffer0 :: "'g \<Rightarrow> error + 'g py_value"
    \<comment> \<open>\<^verbatim>\<open>g.buffer(0)\<close>\<close>
  intersection :: "'g \<Rightarrow> 'g \<Rightarrow> error + 'g"
    \<comment> \<open>\<^verbatim>\<open>a.intersection(b)\<close>\<close>
  difference :: "'g \<Rightarrow> 'g \<Rightarrow> error + 'g"
    \<comment> \<open>\<^verbatim>\<open>a.difference(b)\<close>\<close>
  unary_union :: "'g list \<Rightarrow> error + 'g"
    \<comment> \<open>\<^verbatim>\<open>shapely.ops.unary_union(gs)\<close>\<close>
  unit_disk :: 'g
    \<comment> \<open>\<^verbatim>\<open>Point(0, 0).buffer(1.0, resolution=32)\<close>\<close>
  unit_box :: 'g
    \<comment> \<open>\<^verbatim>\<open>box(-0.5, -0.5, 0.5, 0.5)\<close>\<close>
  Polygon_of :: "('r \<times> 'r) list \<Rightarrow> error + 'g"
    \<comment> \<open>\<^verbatim>\<open>Polygon(vertices)\<close>\<close>
  scale :: "'g \<Rightarrow> 'r \<Rightarrow> 'r \<Rightarrow> error + 'g"
    \<comment> \<open>\<^verbatim>\<open>affinity.scale(g, xfact, yfact, origin=(0, 0))\<close>\<close>
  rotate_geom :: "'g \<Rightarrow> 'r \<Rightarrow> error + 'g"
    \<comment> \<open>\<^verbatim>\<open>affinity.rotate(g, theta, origin=(0, 0), use_radians=True)\<close>\<close>
  translate :: "'g \<Rightarrow> 'r \<Rightarrow> 'r \<Rightarrow> error + 'g"
    \<comment> \<open>\<^verbatim>\<open>affinity.translate(g, xoff, yoff)\<close>\<close>

section \<open>Repair and safe binary operations\<close>

definition polygonal :: "('g, 'r) substrate \<Rightarrow> 'g \<Rightarrow> bool" where
  \<comment> \<open>\<^verbatim>\<open>geom.geom_type in ['Polygon', 'MultiPolygon']\<close>\<close>
  "polygonal s g = (geom_type s g = ''Polygon'' \<or> geom_type s g = ''MultiPolygon'')"

definition collapse :: "('g, 'r) substrate \<Rightarrow> 'g \<Rightarrow> 'g" where
  \<comment> \<open>the third \<^verbatim>\<open>try\<close> block of \<^verbatim>\<open>fix_geom\<close>, on the buffered geometry\<close>
  "collapse s geom =
     (if polygonal s geom then
        (if \<not> is_empty_geom s geom then geom else empty_Polygon s)
      else if geom_type s geom = ''GeometryCollection'' then
        (let polys = filter (polygonal s) (geoms s geom) in
         if polys = [] then empty_Polygon s
         else (case unary_union s polys of
                 Inl e \<Rightarrow> empty_Polygon s
               | Inr u \<Rightarrow> u))
      else empty_Polygon s)"

definition repair :: "('g, 'r) substrate \<Rightarrow> 'g \<Rightarrow> 'g" where
  \<comment> \<open>the second and third \<^verbatim>\<open>try\<close> blocks of \<^verbatim>\<open>fix_geom\<close>\<close>
  "repair s geom =
     (case buffer0 s geom of
        Inl e \<Rightarrow> empty_Polygon s
      | Inr repaired \<Rightarrow>
          (case repaired of
             Geometry r \<Rightarrow> (if is_empty_geom s r then empty_Polygon s else collapse s r)
           | _ \<Rightarrow> empty_Polygon s))"

definition fix_geom :: "('g, 'r) substrate \<Rightarrow> 'g py_value \<Rightarrow> 'g" where
  "fix_geom s v =
     (case v of
        PyNone \<Rightarrow> empty_Polygon s
      | NotGeometry \<Rightarrow> empty_Polygon s
      | Geometry geom \<Rightarrow>
          (if is_empty_geom s geom then empty_Polygon s
           else (case is_valid s geom of
                   Inl e \<Rightarrow> empty_Polygon s
                 | Inr valid \<Rightarrow>
                     (if valid \<and> polygonal s geom \<and> \<not> is_empty_geom s geom then geom
                      else repair s geom))))"

definition safe_intersection :: "('g, 'r) substrate \<Rightarrow> 'g \<Rightarrow> 'g \<Rightarrow> 'g" where
  "safe_intersection s a b =
     (if is_empty_geom s a \<or> is_empty_geom s b then empty_Polygon s
      else (case intersection s a b of
              Inr res \<Rightarrow> fix_geom s (Geometry res)
            | Inl e \<Rightarrow>
                (case intersection s (fix_geom s (Geometry a)) (fix_geom s (Geometry b)) of
                   Inr res \<Rightarrow> fix_geom s (Geometry res)
                 | Inl e2 \<Rightarrow> empty_Polygon s)))"

definition safe_difference :: "('g, 'r) substrate \<Rightarrow> 'g \<Rightarrow> 'g \<Rightarrow> 'g" where
  "safe_difference s a b =
     (if is_empty_geom s a then empty_Polygon s
      else if is_empty_geom s b then a
      else (case difference s a b of
              Inr res \<Rightarrow> fix_geom s (Geometry res)
            | Inl e \<Rightarrow>
                (case difference s (fix_geom s (Geometry a)) (fix_geom s (Geometry b)) of
                   Inr res \<Rightarrow> fix_geom s (Geometry res)
                 | Inl e2 \<Rightarrow> a)))"

section \<open>Genomes and their evaluation\<close>

record 'r transform =
  sx :: 'r
  sy :: 'r
  theta :: 'r
  dx :: 'r
  dy :: 'r

record ('r, 'c) gene =
  kind :: string
  transform :: "'r transform"
  color_rgb :: 'c
  polygon_vertices :: "('r \<times> 'r) list"

datatype ('r, 'c) node =
    PrimitiveNode "('r, 'c) gene"
  | OpNode string "('r, 'c) node list"

text \<open>
  \<^verbatim>\<open>ColorAlgebra\<close> of \<^verbatim>\<open>src.core.shapes.geometry\<close> is not among the sources; its two
  operations are parameters of the evaluation, and so is the type of colours.
\<close>

record 'c ColorAlgebra =
  or_color :: "'c \<Rightarrow> 'c \<Rightarrow> 'c"
  and_color :: "'c \<Rightarrow> 'c \<Rightarrow> 'c"

definition transform_and_fix :: "('g, 'r) substrate \<Rightarrow> 'r transform \<Rightarrow> 'g \<Rightarrow> 'g" where
  \<comment> \<open>the part of \<^verbatim>\<open>gene_to_shapely\<close> after \<^verbatim>\<open>base\<close> is built\<close>
  "transform_and_fix s t base0 =
     (let base = fix_geom s (Geometry base0) in
      case scale s base (sx t) (sy t) of
        Inl e \<Rightarrow> empty_Polygon s
      | Inr g1 \<Rightarrow>
          (case rotate_geom s g1 (theta t) of
             Inl e \<Rightarrow> empty_Polygon s
           | Inr g2 \<Rightarrow>
               (case translate s g2 (dx t) (dy t) of
                  Inl e \<Rightarrow> empty_Polygon s
                | Inr g3 \<Rightarrow> fix_geom s (Geometry g3))))"

definition gene_to_shapely :: "('g, 'r) substrate \<Rightarrow> ('r, 'c) gene \<Rightarrow> error + 'g" where
  "gene_to_shapely s gene =
     (if kind gene = ''disk'' then Inr (transform_and_fix s (transform gene) (unit_disk s))
      else if kind gene = ''square'' then Inr (transform_and_fix s (transform gene) (unit_box s))
      else if kind gene = ''polygon'' then
        (case Polygon_of s (polygon_vertices gene) of
           Inl e \<Rightarrow> Inr (empty_Polygon s)
         | Inr base \<Rightarrow> Inr (transform_and_fix s (transform gene) base))
      else Inl (ValueError (kind gene)))"

text \<open>
  \<^verbatim>\<open>_shatter_and_blend_with_color_alg\<close>. The loop over \<^verbatim>\<open>existing_patches\<close> carries the
  two variables it assigns: \<^verbatim>\<open>next_gen_patches\<close> and \<^verbatim>\<open>shape_to_add\<close>.
\<close>

definition blend :: "'c ColorAlgebra \<Rightarrow> string \<Rightarrow> 'c \<Rightarrow> 'c \<Rightarrow> 'c" where
  "blend color_alg blend_mode exist_color new_color =
     (if blend_mode = ''or'' then or_color color_alg exist_color new_color
      else if blend_mode = ''and'' then and_color color_alg exist_color new_color
      else new_color)"

fun shatter_loop ::
  "('g, 'r) substrate \<Rightarrow> 'c ColorAlgebra \<Rightarrow> string \<Rightarrow> 'c \<Rightarrow> ('g \<times> 'c) list \<Rightarrow>
   ('g \<times> 'c) list \<times> 'g \<Rightarrow> ('g \<times> 'c) list \<times> 'g" where
  "shatter_loop s color_alg blend_mode new_color [] st = st"
| "shatter_loop s color_alg blend_mode new_color ((exist_geom, exist_color) # rest)
     (next_gen_patches, shape_to_add) =
     (if is_empty_geom s shape_to_add then
        shatter_loop s color_alg blend_mode new_color rest
          (next_gen_patches @ [(exist_geom, exist_color)], shape_to_add)
      else
        (let inter = safe_intersection s exist_geom shape_to_add in
         if is_empty_geom s inter then
           shatter_loop s color_alg blend_mode new_color rest
             (next_gen_patches @ [(exist_geom, exist_color)], shape_to_add)
         else
           (let exist_non_overlap = safe_difference s exist_geom shape_to_add;
                patches1 = (if \<not> is_empty_geom s exist_non_overlap
                            then next_gen_patches @ [(exist_non_overlap, exist_color)]
                            else next_gen_patches);
                blended_color = blend color_alg blend_mode exist_color new_color;
                patches2 = (if \<not> is_empty_geom s inter
                            then patches1 @ [(inter, blended_color)]
                            else patches1)
            in shatter_loop s color_alg blend_mode new_color rest
                 (patches2, safe_difference s shape_to_add exist_geom))))"

definition shatter_and_blend_with_color_alg ::
  "('g, 'r) substrate \<Rightarrow> ('g \<times> 'c) list \<Rightarrow> 'g \<Rightarrow> 'c \<Rightarrow> string \<Rightarrow> 'c ColorAlgebra \<Rightarrow>
   ('g \<times> 'c) list" where
  "shatter_and_blend_with_color_alg s existing_patches new_geom new_color blend_mode color_alg =
     (let shape_to_add = fix_geom s (Geometry new_geom) in
      if is_empty_geom s shape_to_add then existing_patches
      else
        (case shatter_loop s color_alg blend_mode new_color existing_patches ([], shape_to_add) of
           (next_gen_patches, shape_to_add') \<Rightarrow>
             (if \<not> is_empty_geom s shape_to_add'
              then next_gen_patches @ [(shape_to_add', new_color)]
              else next_gen_patches)))"

text \<open>
  The loop of \<^verbatim>\<open>process_node\<close> over \<^verbatim>\<open>node.children\<close>: the first child whose evaluation
  raises ends it, and only non-empty results are appended to \<^verbatim>\<open>children_results\<close>.
\<close>

fun collect_results :: "(error + 'a list) list \<Rightarrow> error + 'a list list" where
  "collect_results [] = Inr []"
| "collect_results (r # rs) =
     (case r of
        Inl e \<Rightarrow> Inl e
      | Inr res \<Rightarrow>
          (case collect_results rs of
             Inl e \<Rightarrow> Inl e
           | Inr acc \<Rightarrow> Inr (if res \<noteq> [] then res # acc else acc)))"

text \<open>The union branch: two nested loops around the shatter step.\<close>

fun union_inner ::
  "('g, 'r) substrate \<Rightarrow> 'c ColorAlgebra \<Rightarrow> ('g \<times> 'c) list \<Rightarrow> ('g \<times> 'c) list \<Rightarrow>
   ('g \<times> 'c) list" where
  "union_inner s color_alg current_patches [] = current_patches"
| "union_inner s color_alg current_patches ((new_geom, new_col) # rest) =
     union_inner s color_alg
       (shatter_and_blend_with_color_alg s current_patches new_geom new_col ''or'' color_alg)
       rest"

fun union_outer ::
  "('g, 'r) substrate \<Rightarrow> 'c ColorAlgebra \<Rightarrow> ('g \<times> 'c) list \<Rightarrow> ('g \<times> 'c) list list \<Rightarrow>
   ('g \<times> 'c) list" where
  "union_outer s color_alg current_patches [] = current_patches"
| "union_outer s color_alg current_patches (next_child_list # rest) =
     union_outer s color_alg (union_inner s color_alg current_patches next_child_list) rest"

text \<open>The intersection branch: three nested loops; the inner two fill \<^verbatim>\<open>new_shapes\<close>.\<close>

fun inter_b ::
  "('g, 'r) substrate \<Rightarrow> 'c ColorAlgebra \<Rightarrow> 'g \<times> 'c \<Rightarrow> ('g \<times> 'c) list \<Rightarrow> ('g \<times> 'c) list \<Rightarrow>
   ('g \<times> 'c) list" where
  "inter_b s color_alg a [] new_shapes = new_shapes"
| "inter_b s color_alg (geom_a, col_a) ((geom_b, col_b) # rest) new_shapes =
     (let inter = safe_intersection s geom_a geom_b in
      inter_b s color_alg (geom_a, col_a) rest
        (if \<not> is_empty_geom s inter
         then new_shapes @ [(inter, and_color color_alg col_a col_b)]
         else new_shapes))"

fun inter_a ::
  "('g, 'r) substrate \<Rightarrow> 'c ColorAlgebra \<Rightarrow> ('g \<times> 'c) list \<Rightarrow> ('g \<times> 'c) list \<Rightarrow>
   ('g \<times> 'c) list \<Rightarrow> ('g \<times> 'c) list" where
  "inter_a s color_alg [] next_child_list new_shapes = new_shapes"
| "inter_a s color_alg (a # rest) next_child_list new_shapes =
     inter_a s color_alg rest next_child_list (inter_b s color_alg a next_child_list new_shapes)"

fun inter_outer ::
  "('g, 'r) substrate \<Rightarrow> 'c ColorAlgebra \<Rightarrow> ('g \<times> 'c) list \<Rightarrow> ('g \<times> 'c) list list \<Rightarrow>
   ('g \<times> 'c) list" where
  "inter_outer s color_alg current_shapes [] = current_shapes"
| "inter_outer s color_alg current_shapes (next_child_list # rest) =
     inter_outer s color_alg (inter_a s color_alg current_shapes next_child_list []) rest"

text \<open>The difference branch.\<close>

fun subtractors_of :: "('g, 'r) substrate \<Rightarrow> ('g \<times> 'c) list list \<Rightarrow> 'g list" where
  "subtractors_of s [] = []"
| "subtractors_of s (child_list # rest) =
     map fst (filter (\<lambda>(geom, c). \<not> is_empty_geom s geom) child_list) @ subtractors_of s rest"

fun diff_loop ::
  "('g, 'r) substrate \<Rightarrow> 'g \<Rightarrow> ('g \<times> 'c) list \<Rightarrow> ('g \<times> 'c) list \<Rightarrow> ('g \<times> 'c) list" where
  "diff_loop s total_subtractor [] final_shapes = final_shapes"
| "diff_loop s total_subtractor ((geom_a, col_a) # rest) final_shapes =
     (let diff = safe_difference s geom_a total_subtractor in
      diff_loop s total_subtractor rest
        (if \<not> is_empty_geom s diff then final_shapes @ [(diff, col_a)] else final_shapes))"

definition difference_branch ::
  "('g, 'r) substrate \<Rightarrow> ('g \<times> 'c) list \<Rightarrow> ('g \<times> 'c) list list \<Rightarrow> ('g \<times> 'c) list" where
  \<comment> \<open>\<open>current_shapes\<close> is \<^verbatim>\<open>children_results[0]\<close>, \<open>others\<close> is \<^verbatim>\<open>children_results[1:]\<close>\<close>
  "difference_branch s current_shapes others =
     (let subtractors = subtractors_of s others in
      if subtractors \<noteq> [] then
        (case unary_union s subtractors of
           Inl e \<Rightarrow> current_shapes
         | Inr u \<Rightarrow>
             (let total_subtractor = fix_geom s (Geometry u) in
              if is_empty_geom s total_subtractor then current_shapes
              else diff_loop s total_subtractor current_shapes []))
      else current_shapes)"

fun combine ::
  "('g, 'r) substrate \<Rightarrow> 'c ColorAlgebra \<Rightarrow> string \<Rightarrow> ('g \<times> 'c) list list \<Rightarrow> ('g \<times> 'c) list" where
  \<comment> \<open>the body of the \<^verbatim>\<open>OpNode\<close> branch after \<^verbatim>\<open>children_results\<close> is built\<close>
  "combine s color_alg op_kind [] = []"
| "combine s color_alg op_kind (first # others) =
     (if op_kind = ''union'' then union_outer s color_alg first others
      else if op_kind = ''intersection'' then inter_outer s color_alg first others
      else if op_kind = ''difference'' then difference_branch s first others
      else [])"

fun process_node ::
  "('g, 'r) substrate \<Rightarrow> 'c ColorAlgebra \<Rightarrow> ('r, 'c) node \<Rightarrow> error + ('g \<times> 'c) list" where
  "process_node s color_alg (PrimitiveNode gene) =
     (case gene_to_shapely s gene of
        Inl e \<Rightarrow> Inl e
      | Inr geom \<Rightarrow>
          (if is_empty_geom s geom then Inr [] else Inr [(geom, color_rgb gene)]))"
| "process_node s color_alg (OpNode op_kind children) =
     (case collect_results (map (process_node s color_alg) children) of
        Inl e \<Rightarrow> Inl e
      | Inr children_results \<Rightarrow> Inr (combine s color_alg op_kind children_results))"

section \<open>The population facade\<close>

text \<open>
  \<^verbatim>\<open>BackendAdapter\<close> of \<^verbatim>\<open>src/population_manager/backend_adapter.py\<close> keeps the generation
  counter and an image cache keyed by (generation, index), and delegates the population
  to a \<^verbatim>\<open>PopulationStateManager\<close>. The cache is an association list in insertion order.
\<close>

text \<open>
  Modelled from the spec: the state of \<^verbatim>\<open>PopulationStateManager\<close>, whose module
  \<^verbatim>\<open>population_state_manager.py\<close> is not among the sources: the ordered sequence of
  genomes and the random stream that the population owns.
\<close>

record ('genome, 'rng) PopulationStateManager =
  population :: "'genome list"
  rng :: 'rng

record ('genome, 'rng, 'img) BackendAdapter =
  pop_state :: "('genome, 'rng) PopulationStateManager"
  generation :: int
  image_cache :: "((int \<times> int) \<times> 'img) list"

text \<open>
  Modelled from the spec: the requirement of \<^verbatim>\<open>PopulationStateManager.evolve\<close> on its
  argument, a non-empty set of indices \<open>i\<close> with \<open>0 \<le> i < len(population)\<close>.
\<close>

definition valid_selection :: "'genome list \<Rightarrow> int set \<Rightarrow> bool" where
  "valid_selection pop selected_indices =
     (selected_indices \<noteq> {} \<and> (\<forall>i \<in> selected_indices. 0 \<le> i \<and> i < int (length pop)))"

text \<open>
  Modelled from the spec: \<^verbatim>\<open>PopulationStateManager.evolve\<close>, whose module
  \<^verbatim>\<open>population_state_manager.py\<close> is not among the sources. It fails with the
  \<open>InvalidSelection\<close> condition unless the selection is valid; otherwise the offspring
  replace the population. How parents are chosen and mutated is the parameter \<open>breed\<close>,
  which also advances the random stream.
\<close>

definition pop_state_evolve ::
  "('genome list \<Rightarrow> int set \<Rightarrow> 'rng \<Rightarrow> 'genome list \<times> 'rng) \<Rightarrow>
   ('genome, 'rng) PopulationStateManager \<Rightarrow> int set \<Rightarrow>
   error + ('genome list \<times> ('genome, 'rng) PopulationStateManager)" where
  "pop_state_evolve breed ps selected_indices =
     (if \<not> valid_selection (population ps) selected_indices then Inl InvalidSelection
      else (case breed (population ps) selected_indices (rng ps) of
              (offspring, rng') \<Rightarrow> Inr (offspring, ps\<lparr>population := offspring, rng := rng'\<rparr>)))"

text \<open>
  \<^verbatim>\<open>BackendAdapter.evolve\<close>: the adapter after the call and what the call returns or
  raises. The cache is pruned before the population evolves, so a raise leaves the pruned
  cache behind; the counter is incremented only after the population has evolved.
\<close>

definition evolve ::
  "('genome list \<Rightarrow> int set \<Rightarrow> 'rng \<Rightarrow> 'genome list \<times> 'rng) \<Rightarrow>
   ('genome, 'rng, 'img) BackendAdapter \<Rightarrow> int set \<Rightarrow>
   ('genome, 'rng, 'img) BackendAdapter \<times> (error + 'genome list)" where
  "evolve breed self selected_indices =
     (let pruned = self\<lparr>image_cache :=
            filter (\<lambda>(k, img). \<not> fst k < generation self - 2) (image_cache self)\<rparr> in
      case pop_state_evolve breed (pop_state pruned) selected_indices of
        Inl e \<Rightarrow> (pruned, Inl e)
      | Inr (result, ps') \<Rightarrow>
          (pruned\<lparr>pop_state := ps', generation := generation pruned + 1\<rparr>, Inr result))"

section \<open>Regions as point sets\<close>

text \<open>
  What a geometry covers is given by a function \<open>pts\<close> from geometries to point sets. A
  substrate is exact for \<open>pts\<close> when its operations return, and return what the set
  operations give: this is the correctness of the library that the evaluation relies on.
\<close>

definition exact_substrate :: "('g, 'r) substrate \<Rightarrow> ('g \<Rightarrow> 'p set) \<Rightarrow> bool" where
  "exact_substrate s pts =
     ((\<forall>g. is_empty_geom s g \<longleftrightarrow> pts g = {})
      \<and> pts (empty_Polygon s) = {}
      \<and> (\<forall>g. \<exists>v. is_valid s g = Inr v)
      \<and> (\<forall>g. \<exists>r. buffer0 s g = Inr (Geometry r) \<and> polygonal s r \<and> pts r = pts g)
      \<and> (\<forall>a b. \<exists>r. intersection s a b = Inr r \<and> pts r = pts a \<inter> pts b)
      \<and> (\<forall>a b. \<exists>r. difference s a b = Inr r \<and> pts r = pts a - pts b)
      \<and> (\<forall>gs. \<exists>r. unary_union s gs = Inr r \<and> pts r = \<Union> (pts ` set gs)))"

definition regions :: "('g \<Rightarrow> 'p set) \<Rightarrow> ('g \<times> 'c) list \<Rightarrow> ('p set \<times> 'c) list" where
  "regions pts patches = map (\<lambda>(g, c). (pts g, c)) patches"

fun disjoint_regions :: "('g \<Rightarrow> 'p set) \<Rightarrow> ('g \<times> 'c) list \<Rightarrow> bool" where
  "disjoint_regions pts [] = True"
| "disjoint_regions pts (x # xs) =
     ((\<forall>y \<in> set xs. pts (fst x) \<inter> pts (fst y) = {}) \<and> disjoint_regions pts xs)"

section \<open>The algorithms as the specification words them\<close>

text \<open>
  The shatter step in the words of the specification: the overlap of each existing piece
  with the incoming region; an empty overlap keeps the piece; otherwise the piece minus
  the overlap survives if non-empty, the overlap gets the blended colour, and the incoming
  region shrinks by the piece; what remains of the incoming region is appended at the end.
\<close>

fun spec_shatter ::
  "('g, 'r) substrate \<Rightarrow> 'c ColorAlgebra \<Rightarrow> ('g \<times> 'c) list \<Rightarrow> 'g \<Rightarrow> 'c \<Rightarrow> ('g \<times> 'c) list" where
  "spec_shatter s color_alg [] region_b color_b =
     (if is_empty_geom s region_b then [] else [(region_b, color_b)])"
| "spec_shatter s color_alg ((region_a, color_a) # P) region_b color_b =
     (let overlap = safe_intersection s region_a region_b in
      if is_empty_geom s overlap then
        (region_a, color_a) # spec_shatter s color_alg P region_b color_b
      else
        (let survivor = safe_difference s region_a overlap in
         (if is_empty_geom s survivor then [] else [(survivor, color_a)])
         @ [(overlap, or_color color_alg color_a color_b)]
         @ spec_shatter s color_alg P (safe_difference s region_b region_a) color_b))"

text \<open>The cross product of two partitions under intersection, empty pieces dropped.\<close>

definition cross_product ::
  "('g, 'r) substrate \<Rightarrow> 'c ColorAlgebra \<Rightarrow> ('g \<times> 'c) list \<Rightarrow> ('g \<times> 'c) list \<Rightarrow>
   ('g \<times> 'c) list" where
  "cross_product s color_alg current next_child =
     [(safe_intersection s geom_a geom_b, and_color color_alg col_a col_b).
        (geom_a, col_a) \<leftarrow> current, (geom_b, col_b) \<leftarrow> next_child,
        \<not> is_empty_geom s (safe_intersection s geom_a geom_b)]"

text \<open>
  The intersection and the difference of a list of partitions in the words of the
  specification: the first partition is the accumulator, respectively the minuend, and
  every later partition is folded in, respectively subtracted.
\<close>

definition spec_intersection ::
  "('g, 'r) substrate \<Rightarrow> 'c ColorAlgebra \<Rightarrow> ('g \<times> 'c) list list \<Rightarrow> ('g \<times> 'c) list" where
  "spec_intersection s color_alg partitions =
     (case partitions of
        [] \<Rightarrow> []
      | first # subsequent \<Rightarrow> foldl (cross_product s color_alg) first subsequent)"

definition spec_difference ::
  "('g \<Rightarrow> 'p set) \<Rightarrow> ('g \<times> 'c) list list \<Rightarrow> ('p set \<times> 'c) list" where
  "spec_difference pts partitions =
     (case partitions of
        [] \<Rightarrow> []
      | first # remaining \<Rightarrow>
          (let subtrahend = \<Union> (set (map (pts \<circ> fst) (concat remaining))) in
           filter (\<lambda>(P, c). P \<noteq> {}) (map (\<lambda>(g, c). (pts g - subtrahend, c)) first)))"

text \<open>
  The conversion of a gene in the words of the specification: every transform step is
  followed by its own repair pass.
\<close>

definition spec_transform :: "('g, 'r) substrate \<Rightarrow> 'r transform \<Rightarrow> 'g \<Rightarrow> 'g" where
  "spec_transform s t base0 =
     (let base = fix_geom s (Geometry base0) in
      case scale s base (sx t) (sy t) of
        Inl e \<Rightarrow> empty_Polygon s
      | Inr g1 \<Rightarrow>
          (case rotate_geom s (fix_geom s (Geometry g1)) (theta t) of
             Inl e \<Rightarrow> empty_Polygon s
           | Inr g2 \<Rightarrow>
               (case translate s (fix_geom s (Geometry g2)) (dx t) (dy t) of
                  Inl e \<Rightarrow> empty_Polygon s
                | Inr g3 \<Rightarrow> fix_geom s (Geometry g3))))"

section \<open>A substrate of grid cells\<close>

text \<open>
  A small executable substrate: a geometry is a type name, a validity flag and a finite
  list of cells of the integer grid. Its set operations are exact. Scaling by zero gives
  an invalid geometry, and rotating an invalid geometry raises. The two flags make every
  intersection, respectively every difference, raise.
\<close>

datatype grid_geom = Grid (g_type: string) (g_valid: bool) (g_cells: "(nat \<times> nat) list")

definition grid_substrate :: "bool \<Rightarrow> bool \<Rightarrow> (grid_geom, nat) substrate" where
  "grid_substrate fail_inter fail_diff =
     \<lparr> empty_Polygon = Grid ''Polygon'' True [],
       is_empty_geom = (\<lambda>g. g_cells g = []),
       is_valid = (\<lambda>g. Inr (g_valid g)),
       geom_type = g_type,
       geoms = (\<lambda>g. []),
       buffer0 = (\<lambda>g. Inr (Geometry (Grid ''Polygon'' True (g_cells g)))),
       intersection = (\<lambda>a b. if fail_inter then Inl GEOSException
          else Inr (Grid ''Polygon'' True (filter (\<lambda>c. c \<in> set (g_cells b)) (g_cells a)))),
       difference = (\<lambda>a b. if fail_diff then Inl GEOSException
          else Inr (Grid ''Polygon'' True (filter (\<lambda>c. c \<notin> set (g_cells b)) (g_cells a)))),
       unary_union = (\<lambda>gs. Inr (Grid ''MultiPolygon'' True (remdups (concat (map g_cells gs))))),
       unit_disk = Grid ''Polygon'' True [(0, 0), (0, 1), (1, 0), (1, 1)],
       unit_box = Grid ''Polygon'' True [(0, 0)],
       Polygon_of = (\<lambda>vs. Inr (Grid ''Polygon'' True (remdups vs))),
       scale = (\<lambda>g fx fy. Inr (Grid (g_type g) (g_valid g \<and> fx \<noteq> 0 \<and> fy \<noteq> 0)
          (remdups (map (\<lambda>(x, y). (x * fx, y * fy)) (g_cells g))))),
       rotate_geom = (\<lambda>g th. if g_valid g then Inr g else Inl GEOSException),
       translate = (\<lambda>g ox oy. Inr (Grid (g_type g) (g_valid g)
          (map (\<lambda>(x, y). (x + ox, y + oy)) (g_cells g)))) \<rparr>"

definition grid_pts :: "grid_geom \<Rightarrow> (nat \<times> nat) set" where
  "grid_pts g = set (g_cells g)"

definition max_min :: "nat ColorAlgebra" where
  "max_min = \<lparr> or_color = max, and_color = min \<rparr>"

definition cell_gene :: "(nat \<times> nat) list \<Rightarrow> nat \<Rightarrow> (nat, nat) gene" where
  \<comment> \<open>a polygon gene with the identity transform\<close>
  "cell_gene vs c =
     \<lparr> kind = ''polygon'', transform = \<lparr> sx = 1, sy = 1, theta = 0, dx = 0, dy = 0 \<rparr>,
       color_rgb = c, polygon_vertices = vs \<rparr>"

text \<open>The genes of a genome, and the gene kinds that \<^verbatim>\<open>gene_to_shapely\<close> knows.\<close>

fun genes_of :: "('r, 'c) node \<Rightarrow> ('r, 'c) gene list" where
  "genes_of (PrimitiveNode gene) = [gene]"
| "genes_of (OpNode op_kind children) = concat (map genes_of children)"

definition known_kind :: "('r, 'c) gene \<Rightarrow> bool" where
  "known_kind gene = (kind gene = ''disk'' \<or> kind gene = ''square'' \<or> kind gene = ''polygon'')"

text \<open>
  Concrete inputs: a gene scaled by zero along x, a gene of unknown kind, a breeder and
  an adapter.
\<close>

definition squashed_gene :: "(nat, nat) gene" where
  "squashed_gene =
     \<lparr> kind = ''polygon'', transform = \<lparr> sx = 0, sy = 1, theta = 0, dx = 0, dy = 0 \<rparr>,
       color_rgb = 1, polygon_vertices = [(1, 1)] \<rparr>"

definition star_gene :: "(nat, nat) gene" where
  \<comment> \<open>a gene of a kind that \<^verbatim>\<open>gene_to_shapely\<close> does not know\<close>
  "star_gene =
     \<lparr> kind = ''star'', transform = \<lparr> sx = 1, sy = 1, theta = 0, dx = 0, dy = 0 \<rparr>,
       color_rgb = 1, polygon_vertices = [] \<rparr>"

definition shift_breed :: "nat list \<Rightarrow> int set \<Rightarrow> nat \<Rightarrow> nat list \<times> nat" where
  "shift_breed pop selected_indices seed = (map (\<lambda>g. g + seed) pop, Suc seed)"

definition adapter0 :: "(nat, nat, string) BackendAdapter" where
  "adapter0 =
     \<lparr> pop_state = \<lparr> population = [10, 20, 30], rng = 7 \<rparr>, generation = 4,
       image_cache = [((1, 0), ''a''), ((4, 0), ''b'')] \<rparr>"

text \<open>Auxiliary notions for the proofs.\<close>

definition all_nonempty :: "('g, 'r) substrate \<Rightarrow> ('g \<times> 'c) list \<Rightarrow> bool" where
  "all_nonempty s patches = (\<forall>(g, c) \<in> set patches. \<not> is_empty_geom s g)"

fun disjoint_sets :: "'p set list \<Rightarrow> bool" where
  "disjoint_sets [] = True"
| "disjoint_sets (A # As) = (A \<inter> \<Union> (set As) = {} \<and> disjoint_sets As)"

definition covered :: "('g \<Rightarrow> 'p set) \<Rightarrow> ('g \<times> 'c) list \<Rightarrow> 'p set" where
  "covered pts xs = \<Union> (set (map fst (regions pts xs)))"

definition finish :: "('g, 'r) substrate \<Rightarrow> 'c \<Rightarrow> ('g \<times> 'c) list \<times> 'g \<Rightarrow> ('g \<times> 'c) list" where
  \<comment> \<open>the last statement of the shatter step, on the final state of its loop\<close>
  "finish s new_color st =
     (if \<not> is_empty_geom s (snd st) then fst st @ [(snd st, new_color)] else fst st)"

text \<open>A genome over the grid: (A \<union> B) minus (C \<inter> D).\<close>

definition sample_genome :: "(nat, nat) node" where
  "sample_genome =
     OpNode ''difference''
       [OpNode ''union'' [PrimitiveNode (cell_gene [(0, 0), (0, 1)] 1),
                          PrimitiveNode (cell_gene [(0, 1), (0, 2)] 2)],
        OpNode ''intersection'' [PrimitiveNode (cell_gene [(0, 2), (0, 3)] 3),
                                 PrimitiveNode (cell_gene [(0, 2)] 4)]]"

section \<open>Properties of the repair pass and the safe operations\<close>

text \<open>
  Claim C8. \<^verbatim>\<open>fix_geom\<close> returns a region on every input and never raises: each call that
  can raise sits in a \<^verbatim>\<open>try\<close> block whose handler returns \<^verbatim>\<open>Polygon()\<close>, so the function
  is a total expression. \<^verbatim>\<open>None\<close>, an object that is no geometry, and an empty geometry
  become the empty region. A non-empty geometry that is valid and polygonal is returned as
  it is. A failing validity test gives the empty region. Every other geometry is buffered
  by zero: a failing or empty buffer gives the empty region, a polygonal result is
  returned, a collection is collapsed to the union of its polygonal members (the empty
  region if it has none or the union fails), and anything else gives the empty region.
\<close>

theorem fix_geom_total:
  "fix_geom s PyNone = empty_Polygon s \<and>
   fix_geom s NotGeometry = empty_Polygon s \<and>
   (is_empty_geom s g \<longrightarrow> fix_geom s (Geometry g) = empty_Polygon s) \<and>
   (\<not> is_empty_geom s g \<and> is_valid s g = Inr True \<and> polygonal s g \<longrightarrow>
      fix_geom s (Geometry g) = g) \<and>
   (\<not> is_empty_geom s g \<and> is_valid s g = Inl e \<longrightarrow> fix_geom s (Geometry g) = empty_Polygon s) \<and>
   (\<not> is_empty_geom s g \<and> is_valid s g = Inr v \<and> \<not> (v \<and> polygonal s g) \<longrightarrow>
      fix_geom s (Geometry g) =
        (case buffer0 s g of
           Inl e' \<Rightarrow> empty_Polygon s
         | Inr PyNone \<Rightarrow> empty_Polygon s
         | Inr NotGeometry \<Rightarrow> empty_Polygon s
         | Inr (Geometry r) \<Rightarrow>
             if is_empty_geom s r then empty_Polygon s
             else if polygonal s r then r
             else if geom_type s r = ''GeometryCollection'' then
               (case filter (polygonal s) (geoms s r) of
                  [] \<Rightarrow> empty_Polygon s
                | p # ps \<Rightarrow> (case unary_union s (p # ps) of
                              Inl e' \<Rightarrow> empty_Polygon s
                            | Inr u \<Rightarrow> u))
             else empty_Polygon s))"
  by (auto simp: fix_geom_def repair_def collapse_def Let_def
      split: sum.splits py_value.splits list.splits)

theorem fix_geom_total_witness:
  "fix_geom (grid_substrate False False) (Geometry (Grid ''Polygon'' True []))
     = Grid ''Polygon'' True [] \<and>
   fix_geom (grid_substrate False False) (Geometry (Grid ''MultiPolygon'' True [(0, 0)]))
     = Grid ''MultiPolygon'' True [(0, 0)] \<and>
   fix_geom ((grid_substrate False False)\<lparr>is_valid := \<lambda>g. Inl GEOSException\<rparr>)
       (Geometry (Grid ''Polygon'' True [(0, 0)]))
     = Grid ''Polygon'' True [] \<and>
   fix_geom (grid_substrate False False) (Geometry (Grid ''Polygon'' False [(0, 0)]))
     = Grid ''Polygon'' True [(0, 0)]"
  using fix_geom_total [of "grid_substrate False False" "Grid ''Polygon'' True []"]
    fix_geom_total [of "grid_substrate False False" "Grid ''MultiPolygon'' True [(0, 0)]"]
    fix_geom_total [of "(grid_substrate False False)\<lparr>is_valid := \<lambda>g. Inl GEOSException\<rparr>"
      "Grid ''Polygon'' True [(0, 0)]" GEOSException]
    fix_geom_total [of "grid_substrate False False" "Grid ''Polygon'' False [(0, 0)]" _ False]
  by (simp add: grid_substrate_def polygonal_def)

text \<open>
  Claim C10, as amended. If \<open>a\<close> is empty, \<^verbatim>\<open>safe_difference(a, b)\<close> is the empty region
  \<^verbatim>\<open>Polygon()\<close>; if \<open>a\<close> is not empty and \<open>b\<close> is, it is \<open>a\<close> itself, with no repair.
\<close>

theorem safe_difference_empty_operands:
  "(is_empty_geom s a \<longrightarrow> safe_difference s a b = empty_Polygon s) \<and>
   (\<not> is_empty_geom s a \<and> is_empty_geom s b \<longrightarrow> safe_difference s a b = a)"
  by (simp add: safe_difference_def)

theorem safe_difference_empty_operands_witness:
  "safe_difference (grid_substrate False False) (Grid ''Polygon'' True [])
       (Grid ''Polygon'' True [(0, 0)])
     = empty_Polygon (grid_substrate False False) \<and>
   safe_difference (grid_substrate False False) (Grid ''Polygon'' True [(0, 0)])
       (Grid ''Polygon'' True [])
     = Grid ''Polygon'' True [(0, 0)]"
  using safe_difference_empty_operands [of "grid_substrate False False"
      "Grid ''Polygon'' True []" "Grid ''Polygon'' True [(0, 0)]"]
    safe_difference_empty_operands [of "grid_substrate False False"
      "Grid ''Polygon'' True [(0, 0)]" "Grid ''Polygon'' True []"]
  by (simp add: grid_substrate_def)

text \<open>
  The claim as stated fails where both operands are empty and \<open>a\<close> is not \<^verbatim>\<open>Polygon()\<close>:
  the test of \<open>a\<close> comes first, so an empty multi-polygon minus the empty region is
  \<^verbatim>\<open>Polygon()\<close> and not the multi-polygon.
\<close>

theorem safe_difference_right_identity_counterexample:
  "is_empty_geom (grid_substrate False False) (Grid ''Polygon'' True []) \<and>
   safe_difference (grid_substrate False False) (Grid ''MultiPolygon'' True [])
       (Grid ''Polygon'' True [])
     \<noteq> Grid ''MultiPolygon'' True []"
  by (simp add: safe_difference_def grid_substrate_def)

section \<open>Conversion of a gene\<close>

text \<open>
  Claim C7, as amended. For a gene of kind disk, square or polygon the conversion builds
  the unit shape (a polygon that cannot be built gives the empty region), repairs it,
  then applies scale, rotation and translation in this order, each to the unrepaired
  result of the step before; the first step that fails gives the empty region; one repair
  pass follows the translation.
\<close>

theorem gene_to_shapely_pipeline:
  "known_kind gene \<longrightarrow>
   gene_to_shapely s gene =
     Inr (case (if kind gene = ''disk'' then Inr (unit_disk s)
                else if kind gene = ''square'' then Inr (unit_box s)
                else Polygon_of s (polygon_vertices gene)) of
            Inl e \<Rightarrow> empty_Polygon s
          | Inr base \<Rightarrow>
              (case scale s (fix_geom s (Geometry base))
                      (sx (transform gene)) (sy (transform gene)) of
                 Inl e \<Rightarrow> empty_Polygon s
               | Inr g1 \<Rightarrow>
                   (case rotate_geom s g1 (theta (transform gene)) of
                      Inl e \<Rightarrow> empty_Polygon s
                    | Inr g2 \<Rightarrow>
                        (case translate s g2 (dx (transform gene)) (dy (transform gene)) of
                           Inl e \<Rightarrow> empty_Polygon s
                         | Inr g3 \<Rightarrow> fix_geom s (Geometry g3)))))"
  by (auto simp: gene_to_shapely_def transform_and_fix_def known_kind_def Let_def
      split: sum.splits)

theorem gene_to_shapely_pipeline_witness:
  "known_kind (cell_gene [(1, 1)] 1) \<and>
   gene_to_shapely (grid_substrate False False) (cell_gene [(1, 1)] 1)
     = Inr (Grid ''Polygon'' True [(1, 1)])"
  using gene_to_shapely_pipeline [of "cell_gene [(1, 1)] 1" "grid_substrate False False"]
  by (simp add: grid_substrate_def known_kind_def cell_gene_def fix_geom_def polygonal_def)

text \<open>
  The claim as stated, with a repair pass after every transform step, fails on a gene
  scaled by zero: the scaled shape is invalid, so the rotation raises and the conversion
  gives the empty region, whereas a repair between the two steps would let the rotation
  succeed.
\<close>

theorem repair_between_steps_counterexample:
  "Polygon_of (grid_substrate False False) (polygon_vertices squashed_gene)
     = Inr (Grid ''Polygon'' True [(1, 1)]) \<and>
   gene_to_shapely (grid_substrate False False) squashed_gene = Inr (Grid ''Polygon'' True []) \<and>
   spec_transform (grid_substrate False False) (transform squashed_gene)
       (Grid ''Polygon'' True [(1, 1)])
     = Grid ''Polygon'' True [(0, 1)]"
  by (simp add: gene_to_shapely_def transform_and_fix_def spec_transform_def squashed_gene_def
      grid_substrate_def fix_geom_def polygonal_def repair_def collapse_def)

section \<open>Evaluation returns\<close>

lemma gene_to_shapely_known: "known_kind gene \<Longrightarrow> \<exists>geom. gene_to_shapely s gene = Inr geom"
  by (auto simp: gene_to_shapely_def known_kind_def split: sum.splits)

lemma collect_results_total:
  "(\<forall>r \<in> set rs. \<exists>out. r = Inr out) \<Longrightarrow> \<exists>acc. collect_results rs = Inr acc"
  by (induction rs) (auto split: sum.splits)

lemma process_node_returns:
  "(\<forall>gene \<in> set (genes_of n). known_kind gene) \<Longrightarrow> \<exists>out. process_node s color_alg n = Inr out"
proof (induction n)
  case (PrimitiveNode gene)
  then obtain geom where "gene_to_shapely s gene = Inr geom"
    using gene_to_shapely_known [of gene s] by auto
  then show ?case by simp
next
  case (OpNode op_kind children)
  have "\<forall>r \<in> set (map (process_node s color_alg) children). \<exists>out. r = Inr out"
    using OpNode by auto
  then obtain acc where "collect_results (map (process_node s color_alg) children) = Inr acc"
    using collect_results_total by blast
  then show ?case by simp
qed

lemma collect_results_raises: "collect_results rs = Inl err \<Longrightarrow> Inl err \<in> set rs"
  by (induction rs) (auto split: sum.splits)

lemma process_node_raises:
  "process_node s color_alg n = Inl err \<Longrightarrow>
   \<exists>gene \<in> set (genes_of n). \<not> known_kind gene \<and> err = ValueError (kind gene)"
proof (induction n)
  case (PrimitiveNode gene)
  then show ?case
    by (auto simp: gene_to_shapely_def known_kind_def split: sum.splits if_splits)
next
  case (OpNode op_kind children)
  from OpNode.prems have "collect_results (map (process_node s color_alg) children) = Inl err"
    by (auto split: sum.splits)
  then have "Inl err \<in> set (map (process_node s color_alg) children)"
    by (rule collect_results_raises)
  then obtain child where "child \<in> set children" "process_node s color_alg child = Inl err"
    by auto
  then show ?case
    using OpNode.IH by fastforce
qed

text \<open>
  Claim C5. Past the emptiness guards, an intersection that raises on the operands and
  again on the repaired operands makes \<^verbatim>\<open>safe_intersection\<close> return the empty region, and
  a difference that raises twice makes \<^verbatim>\<open>safe_difference\<close> return its left operand as it
  is. Whatever the substrate raises, the evaluation of a genome whose genes have a known
  kind returns a result, and the only exception an evaluation can raise is the
  \<^verbatim>\<open>ValueError\<close> for a gene of unknown kind.
\<close>

theorem fail_soft:
  "(\<not> is_empty_geom s a \<and> \<not> is_empty_geom s b \<and> intersection s a b = Inl e \<and>
    intersection s (fix_geom s (Geometry a)) (fix_geom s (Geometry b)) = Inl e2
      \<longrightarrow> safe_intersection s a b = empty_Polygon s) \<and>
   (\<not> is_empty_geom s a \<and> \<not> is_empty_geom s b \<and> difference s a b = Inl e \<and>
    difference s (fix_geom s (Geometry a)) (fix_geom s (Geometry b)) = Inl e2
      \<longrightarrow> safe_difference s a b = a) \<and>
   ((\<forall>gene \<in> set (genes_of n). known_kind gene)
      \<longrightarrow> (\<exists>out. process_node s color_alg n = Inr out)) \<and>
   (process_node s color_alg n = Inl err
      \<longrightarrow> (\<exists>gene \<in> set (genes_of n). \<not> known_kind gene \<and> err = ValueError (kind gene)))"
  using process_node_returns [of n s color_alg] process_node_raises [of s color_alg n err]
  by (simp add: safe_intersection_def safe_difference_def)

theorem fail_soft_witness:
  "intersection (grid_substrate True True) (Grid ''Polygon'' True [(0, 0)])
      (Grid ''Polygon'' True [(0, 0), (0, 1)]) = Inl GEOSException \<and>
   difference (grid_substrate True True) (Grid ''Polygon'' True [(0, 0)])
      (Grid ''Polygon'' True [(0, 0), (0, 1)]) = Inl GEOSException \<and>
   safe_intersection (grid_substrate True True) (Grid ''Polygon'' True [(0, 0)])
      (Grid ''Polygon'' True [(0, 0), (0, 1)]) = empty_Polygon (grid_substrate True True) \<and>
   safe_difference (grid_substrate True True) (Grid ''Polygon'' True [(0, 0)])
      (Grid ''Polygon'' True [(0, 0), (0, 1)]) = Grid ''Polygon'' True [(0, 0)] \<and>
   (\<exists>out. process_node (grid_substrate True True) max_min sample_genome = Inr out) \<and>
   process_node (grid_substrate True True) max_min
      (OpNode ''union'' [PrimitiveNode (cell_gene [(0, 0)] 1), PrimitiveNode star_gene])
     = Inl (ValueError ''star'')"
proof -
  have ev: "process_node (grid_substrate True True) max_min
      (OpNode ''union'' [PrimitiveNode (cell_gene [(0, 0)] 1), PrimitiveNode star_gene])
     = Inl (ValueError ''star'')"
    by code_simp
  show ?thesis
    using ev
      fail_soft [of "grid_substrate True True" "Grid ''Polygon'' True [(0, 0)]"
        "Grid ''Polygon'' True [(0, 0), (0, 1)]" GEOSException GEOSException
        sample_genome max_min "ValueError ''star''"]
      fail_soft [of "grid_substrate True True" "Grid ''Polygon'' True [(0, 0)]"
        "Grid ''Polygon'' True [(0, 0), (0, 1)]" GEOSException GEOSException
        "OpNode ''union'' [PrimitiveNode (cell_gene [(0, 0)] 1), PrimitiveNode star_gene]"
        max_min "ValueError ''star''"]
    by (simp add: grid_substrate_def known_kind_def cell_gene_def sample_genome_def)
qed

section \<open>No empty region in the output\<close>

lemma all_nonempty_simps [simp]:
  "all_nonempty s []"
  "all_nonempty s (x # xs) \<longleftrightarrow> \<not> is_empty_geom s (fst x) \<and> all_nonempty s xs"
  "all_nonempty s (xs @ ys) \<longleftrightarrow> all_nonempty s xs \<and> all_nonempty s ys"
  by (auto simp: all_nonempty_def)

lemma shatter_loop_nonempty:
  "all_nonempty s acc \<Longrightarrow> all_nonempty s rest \<Longrightarrow>
   all_nonempty s (fst (shatter_loop s color_alg blend_mode new_color rest (acc, b)))"
  by (induction rest arbitrary: acc b) (auto simp: Let_def)

lemma shatter_nonempty:
  "all_nonempty s existing \<Longrightarrow>
   all_nonempty s
     (shatter_and_blend_with_color_alg s existing new_geom new_color blend_mode color_alg)"
  using shatter_loop_nonempty [of s "[]" existing color_alg blend_mode new_color
      "fix_geom s (Geometry new_geom)"]
  by (auto simp: shatter_and_blend_with_color_alg_def Let_def split: prod.splits)

lemma union_inner_nonempty:
  "all_nonempty s cur \<Longrightarrow> all_nonempty s (union_inner s color_alg cur next_child)"
  by (induction next_child arbitrary: cur) (auto simp: shatter_nonempty)

lemma union_outer_nonempty:
  "all_nonempty s cur \<Longrightarrow> all_nonempty s (union_outer s color_alg cur others)"
  by (induction others arbitrary: cur) (auto simp: union_inner_nonempty)

text \<open>The loops of the intersection and difference branches as list comprehensions.\<close>

lemma inter_b_eq:
  "inter_b s color_alg a next_child acc = acc @ cross_product s color_alg [a] next_child"
  by (induction next_child arbitrary: acc)
     (auto simp: cross_product_def Let_def split: prod.splits)

lemma cross_product_Cons:
  "cross_product s color_alg (a # cur) next_child =
   cross_product s color_alg [a] next_child @ cross_product s color_alg cur next_child"
  by (simp add: cross_product_def)

lemma inter_a_eq:
  "inter_a s color_alg cur next_child acc = acc @ cross_product s color_alg cur next_child"
proof (induction cur arbitrary: acc)
  case Nil
  show ?case by (simp add: cross_product_def)
next
  case (Cons a cur)
  show ?case
    by (simp add: Cons.IH inter_b_eq cross_product_Cons [of s color_alg a cur])
qed

lemma inter_outer_eq:
  "inter_outer s color_alg cur others = foldl (cross_product s color_alg) cur others"
  by (induction others arbitrary: cur) (simp_all add: inter_a_eq)

lemma cross_product_nonempty: "all_nonempty s (cross_product s color_alg cur next_child)"
  by (auto simp: all_nonempty_def cross_product_def)

lemma inter_outer_nonempty:
  "all_nonempty s cur \<Longrightarrow> all_nonempty s (inter_outer s color_alg cur others)"
  by (induction others arbitrary: cur) (auto simp: inter_a_eq cross_product_nonempty)

lemma diff_loop_eq:
  "diff_loop s t cur acc =
   acc @ [(safe_difference s g t, c). (g, c) \<leftarrow> cur, \<not> is_empty_geom s (safe_difference s g t)]"
  by (induction cur arbitrary: acc) (auto simp: Let_def)

lemma diff_loop_nonempty: "all_nonempty s acc \<Longrightarrow> all_nonempty s (diff_loop s t cur acc)"
  by (auto simp: diff_loop_eq all_nonempty_def)

lemma difference_branch_nonempty:
  "all_nonempty s cur \<Longrightarrow> all_nonempty s (difference_branch s cur others)"
  by (auto simp: difference_branch_def Let_def diff_loop_nonempty split: sum.splits)

lemma combine_nonempty:
  "\<forall>r \<in> set children_results. all_nonempty s r \<Longrightarrow>
   all_nonempty s (combine s color_alg op_kind children_results)"
  by (cases children_results)
     (auto simp: union_outer_nonempty inter_outer_nonempty difference_branch_nonempty)

lemma collect_results_set:
  "collect_results rs = Inr acc \<Longrightarrow> r \<in> set acc \<Longrightarrow> r \<noteq> [] \<and> Inr r \<in> set rs"
  by (induction rs arbitrary: acc) (auto split: sum.splits if_splits)

lemma process_node_nonempty:
  "process_node s color_alg n = Inr out \<Longrightarrow> all_nonempty s out"
proof (induction n arbitrary: out)
  case (PrimitiveNode gene)
  then show ?case by (auto split: sum.splits if_splits)
next
  case (OpNode op_kind children)
  from OpNode.prems obtain children_results where
    cr: "collect_results (map (process_node s color_alg) children) = Inr children_results"
    and out: "out = combine s color_alg op_kind children_results"
    by (auto split: sum.splits)
  have "\<forall>r \<in> set children_results. all_nonempty s r"
  proof
    fix r assume "r \<in> set children_results"
    with cr have "Inr r \<in> set (map (process_node s color_alg) children)"
      using collect_results_set by blast
    then obtain child where "child \<in> set children" "process_node s color_alg child = Inr r"
      by auto
    then show "all_nonempty s r" using OpNode.IH by blast
  qed
  then show ?case using out combine_nonempty by blast
qed

text \<open>
  Claim C9. Every pair in the sequence that evaluation returns has a non-empty region,
  for every genome and whatever the substrate does.
\<close>

theorem output_regions_nonempty:
  "process_node s color_alg n = Inr out \<Longrightarrow> \<forall>(g, c) \<in> set out. \<not> is_empty_geom s g"
  using process_node_nonempty [of s color_alg n out] by (simp add: all_nonempty_def)

theorem output_regions_nonempty_witness:
  "process_node (grid_substrate False False) max_min sample_genome
     = Inr [(Grid ''Polygon'' True [(0, 0)], 1), (Grid ''Polygon'' True [(0, 1)], 2)] \<and>
   list_all (\<lambda>(g, c). \<not> is_empty_geom (grid_substrate False False) g)
     [(Grid ''Polygon'' True [(0, 0)], 1::nat), (Grid ''Polygon'' True [(0, 1)], 2)]"
proof -
  have ev: "process_node (grid_substrate False False) max_min sample_genome
      = Inr [(Grid ''Polygon'' True [(0, 0)], 1), (Grid ''Polygon'' True [(0, 1)], 2)]"
    by code_simp
  show ?thesis
    using ev output_regions_nonempty [OF ev] by (simp add: list_all_iff)
qed

section \<open>Exact substrates\<close>

lemma exact_is_empty: "exact_substrate s pts \<Longrightarrow> is_empty_geom s g \<longleftrightarrow> pts g = {}"
  by (simp add: exact_substrate_def)

lemma exact_empty_Polygon: "exact_substrate s pts \<Longrightarrow> pts (empty_Polygon s) = {}"
  by (simp add: exact_substrate_def)

lemma exact_is_valid: "exact_substrate s pts \<Longrightarrow> \<exists>v. is_valid s g = Inr v"
  by (simp add: exact_substrate_def)

lemma exact_buffer0:
  "exact_substrate s pts \<Longrightarrow>
   \<exists>r. buffer0 s g = Inr (Geometry r) \<and> polygonal s r \<and> pts r = pts g"
  by (simp add: exact_substrate_def)

lemma exact_intersection:
  "exact_substrate s pts \<Longrightarrow> \<exists>r. intersection s a b = Inr r \<and> pts r = pts a \<inter> pts b"
  by (simp add: exact_substrate_def)

lemma exact_difference:
  "exact_substrate s pts \<Longrightarrow> \<exists>r. difference s a b = Inr r \<and> pts r = pts a - pts b"
  by (simp add: exact_substrate_def)

lemma exact_unary_union:
  "exact_substrate s pts \<Longrightarrow> \<exists>r. unary_union s gs = Inr r \<and> pts r = \<Union> (pts ` set gs)"
  by (simp add: exact_substrate_def)

lemma exact_fix_geom:
  assumes "exact_substrate s pts"
  shows "pts (fix_geom s (Geometry g)) = pts g"
proof -
  obtain v where v: "is_valid s g = Inr v"
    using exact_is_valid [OF assms] by blast
  obtain r where r: "buffer0 s g = Inr (Geometry r)" "polygonal s r" "pts r = pts g"
    using exact_buffer0 [OF assms] by blast
  show ?thesis
    using v r
    by (simp add: fix_geom_def repair_def collapse_def exact_is_empty [OF assms]
        exact_empty_Polygon [OF assms])
qed

lemma exact_safe_intersection:
  assumes "exact_substrate s pts"
  shows "pts (safe_intersection s a b) = pts a \<inter> pts b"
proof -
  obtain r where r: "intersection s a b = Inr r" "pts r = pts a \<inter> pts b"
    using exact_intersection [OF assms] by blast
  show ?thesis
    using r
    by (auto simp: safe_intersection_def exact_is_empty [OF assms]
        exact_empty_Polygon [OF assms] exact_fix_geom [OF assms])
qed

lemma exact_safe_difference:
  assumes "exact_substrate s pts"
  shows "pts (safe_difference s a b) = pts a - pts b"
proof -
  obtain r where r: "difference s a b = Inr r" "pts r = pts a - pts b"
    using exact_difference [OF assms] by blast
  show ?thesis
    using r
    by (auto simp: safe_difference_def exact_is_empty [OF assms]
        exact_empty_Polygon [OF assms] exact_fix_geom [OF assms])
qed

lemma grid_exact: "exact_substrate (grid_substrate False False) grid_pts"
  by (auto simp: exact_substrate_def grid_substrate_def grid_pts_def polygonal_def)

lemma regions_append [simp]: "regions pts (xs @ ys) = regions pts xs @ regions pts ys"
  by (simp add: regions_def)

lemma regions_Cons [simp]: "regions pts ((g, c) # xs) = (pts g, c) # regions pts xs"
  by (simp add: regions_def)

lemma regions_Nil [simp]: "regions pts [] = []"
  by (simp add: regions_def)

lemma fst_regions: "map fst (regions pts xs) = map (pts \<circ> fst) xs"
  by (induction xs) (auto simp: regions_def)

section \<open>The intersection branch\<close>

lemma collect_results_Inr:
  "collect_results (map Inr results) = Inr (filter (\<lambda>r. r \<noteq> []) results)"
  by (induction results) auto

text \<open>
  Claim C4, as amended. When the children of an intersection node evaluate to the
  partitions \<open>results\<close>, the node evaluates to the pairwise fold over the non-empty
  partitions among them, in order: the accumulator starts as the first non-empty
  partition, each later non-empty partition replaces it by the cross product of the
  non-empty intersections, coloured by \<^verbatim>\<open>and_color\<close>, and a child with an empty partition
  is skipped.
\<close>

theorem intersection_node:
  "map (process_node s color_alg) children = map Inr results \<longrightarrow>
   process_node s color_alg (OpNode ''intersection'' children) =
     Inr (spec_intersection s color_alg (filter (\<lambda>r. r \<noteq> []) results))"
  by (auto simp: collect_results_Inr spec_intersection_def inter_outer_eq split: list.splits)

theorem intersection_node_witness:
  "map (process_node (grid_substrate False False) max_min)
       [PrimitiveNode (cell_gene [(0, 2), (0, 3)] 3), PrimitiveNode (cell_gene [(0, 2)] 4)]
     = map Inr [[(Grid ''Polygon'' True [(0, 2), (0, 3)], 3)], [(Grid ''Polygon'' True [(0, 2)], 4)]] \<and>
   process_node (grid_substrate False False) max_min
       (OpNode ''intersection''
          [PrimitiveNode (cell_gene [(0, 2), (0, 3)] 3), PrimitiveNode (cell_gene [(0, 2)] 4)])
     = Inr [(Grid ''Polygon'' True [(0, 2)], 3)]"
proof -
  have ev: "map (process_node (grid_substrate False False) max_min)
       [PrimitiveNode (cell_gene [(0, 2), (0, 3)] 3), PrimitiveNode (cell_gene [(0, 2)] 4)]
     = map Inr [[(Grid ''Polygon'' True [(0, 2), (0, 3)], 3)], [(Grid ''Polygon'' True [(0, 2)], 4)]]"
    by code_simp
  have sp: "spec_intersection (grid_substrate False False) max_min
       (filter (\<lambda>r. r \<noteq> [])
          [[(Grid ''Polygon'' True [(0, 2), (0, 3)], 3)], [(Grid ''Polygon'' True [(0, 2)], 4)]])
     = [(Grid ''Polygon'' True [(0, 2)], 3)]"
    by code_simp
  have "process_node (grid_substrate False False) max_min
       (OpNode ''intersection''
          [PrimitiveNode (cell_gene [(0, 2), (0, 3)] 3), PrimitiveNode (cell_gene [(0, 2)] 4)])
     = Inr (spec_intersection (grid_substrate False False) max_min
         (filter (\<lambda>r. r \<noteq> [])
            [[(Grid ''Polygon'' True [(0, 2), (0, 3)], 3)], [(Grid ''Polygon'' True [(0, 2)], 4)]]))"
    by (rule intersection_node [rule_format, OF ev])
  then have "process_node (grid_substrate False False) max_min
       (OpNode ''intersection''
          [PrimitiveNode (cell_gene [(0, 2), (0, 3)] 3), PrimitiveNode (cell_gene [(0, 2)] 4)])
     = Inr [(Grid ''Polygon'' True [(0, 2)], 3)]"
    by (simp only: sp)
  with ev show ?thesis by (rule conjI)
qed

text \<open>
  The claim as stated folds every child after the first non-empty one. It fails when a
  later child has an empty partition: the cross product with no piece is empty, but the
  code skips that child and returns the first child's partition.
\<close>

theorem intersection_empty_child_counterexample:
  "map (process_node (grid_substrate False False) max_min)
       [PrimitiveNode (cell_gene [(0, 0)] 1), PrimitiveNode (cell_gene [] 2)]
     = map Inr [[(Grid ''Polygon'' True [(0, 0)], 1)], []] \<and>
   process_node (grid_substrate False False) max_min
       (OpNode ''intersection''
          [PrimitiveNode (cell_gene [(0, 0)] 1), PrimitiveNode (cell_gene [] 2)])
     = Inr [(Grid ''Polygon'' True [(0, 0)], 1)] \<and>
   spec_intersection (grid_substrate False False) max_min
       (dropWhile (\<lambda>r. r = []) [[(Grid ''Polygon'' True [(0, 0)], 1)], []])
     = []"
  by code_simp

section \<open>The difference branch\<close>

lemma regions_nonempty_filter:
  "exact_substrate s pts \<Longrightarrow> all_nonempty s xs \<Longrightarrow>
   filter (\<lambda>(P, c). P \<noteq> {}) (map (\<lambda>(g, c). (pts g - {}, c)) xs) = regions pts xs"
  by (induction xs) (auto simp: regions_def exact_is_empty)

lemma subtractors_pts:
  "exact_substrate s pts \<Longrightarrow>
   \<Union> (pts ` set (subtractors_of s others)) = \<Union> (set (map (pts \<circ> fst) (concat others)))"
  by (induction others) (auto simp: exact_is_empty)

lemma regions_diff_loop:
  assumes "exact_substrate s pts"
  shows "regions pts (diff_loop s t cur []) =
    filter (\<lambda>(P, c). P \<noteq> {}) (map (\<lambda>(g, c). (pts g - pts t, c)) cur)"
proof -
  have "is_empty_geom s (safe_difference s g t) \<longleftrightarrow> pts g - pts t = {}" for g
    using exact_is_empty [OF assms] exact_safe_difference [OF assms] by metis
  then show ?thesis
    by (induction cur)
       (simp_all add: diff_loop_eq regions_def exact_safe_difference [OF assms]
          split: prod.splits)
qed

lemma regions_difference_branch:
  assumes ex: "exact_substrate s pts" and ne: "all_nonempty s first"
  shows "regions pts (difference_branch s first others) = spec_difference pts (first # others)"
proof (cases "subtractors_of s others = []")
  case True
  then have "\<Union> (set (map (pts \<circ> fst) (concat others))) = {}"
    using subtractors_pts [OF ex, of others] by simp
  then show ?thesis
    using True regions_nonempty_filter [OF ex ne]
    by (simp add: difference_branch_def spec_difference_def)
next
  case False
  obtain u where u: "unary_union s (subtractors_of s others) = Inr u"
    "pts u = \<Union> (pts ` set (subtractors_of s others))"
    using exact_unary_union [OF ex] by blast
  let ?t = "fix_geom s (Geometry u)"
  have t: "pts ?t = \<Union> (set (map (pts \<circ> fst) (concat others)))"
    using u exact_fix_geom [OF ex] subtractors_pts [OF ex, of others] by simp
  show ?thesis
  proof (cases "is_empty_geom s ?t")
    case True
    then have "pts ?t = {}" using exact_is_empty [OF ex] by blast
    then show ?thesis
      using False u True t regions_nonempty_filter [OF ex ne]
      by (simp add: difference_branch_def spec_difference_def)
  next
    case nonempty: False
    show ?thesis
      using False u nonempty t regions_diff_loop [OF ex, of ?t first]
      by (simp add: difference_branch_def spec_difference_def)
  qed
qed

lemma children_results_nonempty:
  assumes "map (process_node s color_alg) children = map Inr results" "r \<in> set results"
  shows "all_nonempty s r"
proof -
  have "Inr r \<in> set (map (process_node s color_alg) children)"
    using assms by auto
  then obtain child where "process_node s color_alg child = Inr r" by auto
  then show ?thesis by (rule process_node_nonempty)
qed

text \<open>
  Claim C3, as amended. On an exact substrate, when the children of a difference node
  evaluate to the partitions \<open>results\<close>, the minuend is the first non-empty partition
  among them (a child with an empty partition is skipped, also in first place), the
  subtrahend is the union of all regions of the later partitions, and the node evaluates
  to the pieces of the minuend minus the subtrahend, in order, without the pieces that
  become empty and with their colours unchanged.
\<close>

theorem difference_node:
  assumes "exact_substrate s pts"
    and "map (process_node s color_alg) children = map Inr results"
  shows "\<exists>out. process_node s color_alg (OpNode ''difference'' children) = Inr out \<and>
     regions pts out = spec_difference pts (filter (\<lambda>r. r \<noteq> []) results)"
proof (cases "filter (\<lambda>r. r \<noteq> []) results")
  case Nil
  then show ?thesis
    using assms(2) by (simp add: collect_results_Inr spec_difference_def regions_def)
next
  case (Cons first others)
  then have "first \<in> set (filter (\<lambda>r. r \<noteq> []) results)"
    by simp
  then have "first \<in> set results"
    by simp
  then have "all_nonempty s first"
    using children_results_nonempty [OF assms(2)] by blast
  then show ?thesis
    using assms Cons regions_difference_branch [OF assms(1), of first others]
    by (simp add: collect_results_Inr)
qed

theorem difference_node_witness:
  "exact_substrate (grid_substrate False False) grid_pts \<and>
   map (process_node (grid_substrate False False) max_min)
       [PrimitiveNode (cell_gene [(0, 0), (0, 1)] 1), PrimitiveNode (cell_gene [(0, 1), (0, 2)] 2)]
     = map Inr [[(Grid ''Polygon'' True [(0, 0), (0, 1)], 1)],
                [(Grid ''Polygon'' True [(0, 1), (0, 2)], 2)]] \<and>
   (\<exists>out. process_node (grid_substrate False False) max_min
       (OpNode ''difference''
          [PrimitiveNode (cell_gene [(0, 0), (0, 1)] 1),
           PrimitiveNode (cell_gene [(0, 1), (0, 2)] 2)]) = Inr out \<and>
     regions grid_pts out = [({(0, 0)}, 1)])"
proof -
  have ev: "map (process_node (grid_substrate False False) max_min)
       [PrimitiveNode (cell_gene [(0, 0), (0, 1)] 1), PrimitiveNode (cell_gene [(0, 1), (0, 2)] 2)]
     = map Inr [[(Grid ''Polygon'' True [(0, 0), (0, 1)], 1)],
                [(Grid ''Polygon'' True [(0, 1), (0, 2)], 2)]]"
    by code_simp
  have sp: "spec_difference grid_pts
       (filter (\<lambda>r. r \<noteq> [])
          [[(Grid ''Polygon'' True [(0, 0), (0, 1)], 1::nat)],
           [(Grid ''Polygon'' True [(0, 1), (0, 2)], 2)]])
     = [({(0, 0)}, 1)]"
    by (auto simp: spec_difference_def grid_pts_def)
  show ?thesis
    using grid_exact ev difference_node [OF grid_exact ev] unfolding sp by (intro conjI)
qed

text \<open>
  The claim as stated takes the first child as the minuend. It fails when the first
  child has an empty partition: nothing minus something is nothing, but the code takes
  the next non-empty partition as the minuend and returns its pieces.
\<close>

theorem difference_empty_first_child_counterexample:
  "map (process_node (grid_substrate False False) max_min)
       [PrimitiveNode (cell_gene [] 1), PrimitiveNode (cell_gene [(0, 0)] 2)]
     = map Inr [[], [(Grid ''Polygon'' True [(0, 0)], 2)]] \<and>
   process_node (grid_substrate False False) max_min
       (OpNode ''difference''
          [PrimitiveNode (cell_gene [] 1), PrimitiveNode (cell_gene [(0, 0)] 2)])
     = Inr [(Grid ''Polygon'' True [(0, 0)], 2)] \<and>
   regions grid_pts [(Grid ''Polygon'' True [(0, 0)], 2::nat)] = [({(0, 0)}, 2)] \<and>
   spec_difference grid_pts [[], [(Grid ''Polygon'' True [(0, 0)], 2::nat)]] = []"
proof -
  have "map (process_node (grid_substrate False False) max_min)
       [PrimitiveNode (cell_gene [] 1), PrimitiveNode (cell_gene [(0, 0)] 2)]
     = map Inr [[], [(Grid ''Polygon'' True [(0, 0)], 2)]]"
    by code_simp
  moreover have "process_node (grid_substrate False False) max_min
       (OpNode ''difference''
          [PrimitiveNode (cell_gene [] 1), PrimitiveNode (cell_gene [(0, 0)] 2)])
     = Inr [(Grid ''Polygon'' True [(0, 0)], 2)]"
    by code_simp
  moreover have "regions grid_pts [(Grid ''Polygon'' True [(0, 0)], 2::nat)] = [({(0, 0)}, 2)]"
    by (simp add: grid_pts_def)
  moreover have "spec_difference grid_pts [[], [(Grid ''Polygon'' True [(0, 0)], 2::nat)]] = []"
    by (simp add: spec_difference_def)
  ultimately show ?thesis by (intro conjI)
qed

section \<open>The union fold step\<close>

lemma shatter_finish:
  "shatter_and_blend_with_color_alg s existing new_geom new_color blend_mode color_alg =
     (if is_empty_geom s (fix_geom s (Geometry new_geom)) then existing
      else finish s new_color
        (shatter_loop s color_alg blend_mode new_color existing
           ([], fix_geom s (Geometry new_geom))))"
  by (simp add: shatter_and_blend_with_color_alg_def finish_def Let_def split: prod.splits)

lemma regions_shatter_loop:
  assumes ex: "exact_substrate s pts"
  shows "pts bc = pts b' \<Longrightarrow>
    regions pts (finish s new_color (shatter_loop s color_alg ''or'' new_color rest (acc, bc))) =
    regions pts acc @ regions pts (spec_shatter s color_alg rest b' new_color)"
proof (induction rest arbitrary: acc bc b')
  case Nil
  then show ?case
    by (simp add: finish_def exact_is_empty [OF ex])
next
  case (Cons x rest)
  obtain a col where x: "x = (a, col)" by (cases x)
  have sd: "pts (safe_difference s bc a) = pts (safe_difference s b' a)"
    using Cons.prems by (simp add: exact_safe_difference [OF ex])
  have surv: "pts (safe_difference s a bc) = pts (safe_difference s a (safe_intersection s a b'))"
    using Cons.prems
    by (auto simp: exact_safe_difference [OF ex] exact_safe_intersection [OF ex])
  have ov: "pts (safe_intersection s a bc) = pts (safe_intersection s a b')"
    using Cons.prems by (simp add: exact_safe_intersection [OF ex])
  have e1: "is_empty_geom s (safe_intersection s a bc) = is_empty_geom s (safe_intersection s a b')"
    using ov by (simp add: exact_is_empty [OF ex])
  have e2: "is_empty_geom s (safe_difference s a bc)
      = is_empty_geom s (safe_difference s a (safe_intersection s a b'))"
    using surv by (simp add: exact_is_empty [OF ex])
  have e3: "is_empty_geom s bc \<Longrightarrow> is_empty_geom s (safe_intersection s a b')"
    using Cons.prems
    by (simp add: exact_is_empty [OF ex] exact_safe_intersection [OF ex])
  show ?case
  proof (cases "is_empty_geom s (safe_intersection s a b')")
    case True
    then show ?thesis
      using Cons.IH [OF Cons.prems, of "acc @ [(a, col)]"] e1
      by (simp add: x Let_def)
  next
    case False
    then have nb: "\<not> is_empty_geom s bc" using e3 by blast
    show ?thesis
      using False nb e1 e2 surv ov Cons.IH [OF sd]
      by (simp add: x Let_def blend_def)
  qed
qed

lemma spec_shatter_empty:
  assumes ex: "exact_substrate s pts" and "pts b = {}"
  shows "spec_shatter s color_alg P b new_color = P"
  using assms(2)
  by (induction P)
     (auto simp: exact_is_empty [OF ex] exact_safe_intersection [OF ex] Let_def)

lemma regions_shatter:
  assumes ex: "exact_substrate s pts"
  shows "regions pts (shatter_and_blend_with_color_alg s P region_b color_b ''or'' color_alg) =
    regions pts (spec_shatter s color_alg P region_b color_b)"
proof (cases "is_empty_geom s (fix_geom s (Geometry region_b))")
  case True
  then have "pts region_b = {}"
    by (simp add: exact_is_empty [OF ex] exact_fix_geom [OF ex])
  then show ?thesis
    using True by (simp add: shatter_finish spec_shatter_empty [OF ex])
next
  case False
  have "pts (fix_geom s (Geometry region_b)) = pts region_b"
    by (rule exact_fix_geom [OF ex])
  from regions_shatter_loop [OF ex this, of color_b color_alg P "[]"] False
  show ?thesis by (simp add: shatter_finish)
qed

lemma union_inner_foldl:
  "union_inner s color_alg cur next_child =
   foldl (\<lambda>P (b, cb). shatter_and_blend_with_color_alg s P b cb ''or'' color_alg) cur next_child"
  by (induction next_child arbitrary: cur) auto

lemma union_outer_foldl:
  "union_outer s color_alg cur others =
   foldl (\<lambda>P (b, cb). shatter_and_blend_with_color_alg s P b cb ''or'' color_alg) cur
     (concat others)"
  by (induction others arbitrary: cur) (auto simp: union_inner_foldl)

text \<open>
  Claim C2. The union branch folds the shatter step, in blend mode \<^verbatim>\<open>or\<close>, over every
  piece of every later non-empty child partition, in order. On an exact substrate each
  step returns the same sequence of regions and colours as the step of the specification:
  a piece with an empty overlap is kept; otherwise the piece minus the overlap survives
  if non-empty, the overlap gets \<^verbatim>\<open>or_color\<close> of the two colours, and the incoming region
  shrinks by the piece; the non-empty remainder of the incoming region comes last with
  its own colour.
\<close>

theorem union_fold_step:
  "(exact_substrate s pts \<longrightarrow>
      regions pts (shatter_and_blend_with_color_alg s P region_b color_b ''or'' color_alg) =
      regions pts (spec_shatter s color_alg P region_b color_b)) \<and>
   (map (process_node s color_alg) children = map Inr results \<longrightarrow>
      process_node s color_alg (OpNode ''union'' children) =
        Inr (case filter (\<lambda>r. r \<noteq> []) results of
               [] \<Rightarrow> []
             | first # others \<Rightarrow>
                 foldl (\<lambda>P (b, cb). shatter_and_blend_with_color_alg s P b cb ''or'' color_alg)
                   first (concat others)))"
  using regions_shatter [of s pts P region_b color_b color_alg]
  by (auto simp: collect_results_Inr union_outer_foldl split: list.splits)

theorem union_fold_step_witness:
  "exact_substrate (grid_substrate False False) grid_pts \<and>
   regions grid_pts (spec_shatter (grid_substrate False False) max_min
       [(Grid ''Polygon'' True [(0, 0), (0, 1)], 1)] (Grid ''Polygon'' True [(0, 1), (0, 2)]) 2)
     = [({(0, 0)}, 1), ({(0, 1)}, 2), ({(0, 2)}, 2)] \<and>
   regions grid_pts (shatter_and_blend_with_color_alg (grid_substrate False False)
       [(Grid ''Polygon'' True [(0, 0), (0, 1)], 1)] (Grid ''Polygon'' True [(0, 1), (0, 2)]) 2
       ''or'' max_min)
     = [({(0, 0)}, 1), ({(0, 1)}, 2), ({(0, 2)}, 2)] \<and>
   map (process_node (grid_substrate False False) max_min)
       [PrimitiveNode (cell_gene [(0, 0), (0, 1)] 1), PrimitiveNode (cell_gene [(0, 1), (0, 2)] 2)]
     = map Inr [[(Grid ''Polygon'' True [(0, 0), (0, 1)], 1)],
                [(Grid ''Polygon'' True [(0, 1), (0, 2)], 2)]] \<and>
   process_node (grid_substrate False False) max_min
       (OpNode ''union''
          [PrimitiveNode (cell_gene [(0, 0), (0, 1)] 1),
           PrimitiveNode (cell_gene [(0, 1), (0, 2)] 2)])
     = Inr (shatter_and_blend_with_color_alg (grid_substrate False False)
         [(Grid ''Polygon'' True [(0, 0), (0, 1)], 1)] (Grid ''Polygon'' True [(0, 1), (0, 2)]) 2
         ''or'' max_min)"
proof -
  have sp: "spec_shatter (grid_substrate False False) max_min
       [(Grid ''Polygon'' True [(0, 0), (0, 1)], 1)] (Grid ''Polygon'' True [(0, 1), (0, 2)]) 2
     = [(Grid ''Polygon'' True [(0, 0)], 1), (Grid ''Polygon'' True [(0, 1)], 2),
        (Grid ''Polygon'' True [(0, 2)], 2)]"
    by code_simp
  have rg: "regions grid_pts [(Grid ''Polygon'' True [(0, 0)], 1::nat),
        (Grid ''Polygon'' True [(0, 1)], 2), (Grid ''Polygon'' True [(0, 2)], 2)]
     = [({(0, 0)}, 1), ({(0, 1)}, 2), ({(0, 2)}, 2)]"
    by (simp add: grid_pts_def)
  have ev: "map (process_node (grid_substrate False False) max_min)
       [PrimitiveNode (cell_gene [(0, 0), (0, 1)] 1), PrimitiveNode (cell_gene [(0, 1), (0, 2)] 2)]
     = map Inr [[(Grid ''Polygon'' True [(0, 0), (0, 1)], 1)],
                [(Grid ''Polygon'' True [(0, 1), (0, 2)], 2)]]"
    by code_simp
  note step = union_fold_step [of "grid_substrate False False" grid_pts
      "[(Grid ''Polygon'' True [(0, 0), (0, 1)], 1)]" "Grid ''Polygon'' True [(0, 1), (0, 2)]" 2
      max_min
      "[PrimitiveNode (cell_gene [(0, 0), (0, 1)] 1), PrimitiveNode (cell_gene [(0, 1), (0, 2)] 2)]"
      "[[(Grid ''Polygon'' True [(0, 0), (0, 1)], 1)], [(Grid ''Polygon'' True [(0, 1), (0, 2)], 2)]]"]
  have eq: "regions grid_pts (shatter_and_blend_with_color_alg (grid_substrate False False)
       [(Grid ''Polygon'' True [(0, 0), (0, 1)], 1)] (Grid ''Polygon'' True [(0, 1), (0, 2)]) 2
       ''or'' max_min)
     = regions grid_pts (spec_shatter (grid_substrate False False) max_min
       [(Grid ''Polygon'' True [(0, 0), (0, 1)], 1)] (Grid ''Polygon'' True [(0, 1), (0, 2)]) 2)"
    using step grid_exact by blast
  have un: "process_node (grid_substrate False False) max_min
       (OpNode ''union''
          [PrimitiveNode (cell_gene [(0, 0), (0, 1)] 1),
           PrimitiveNode (cell_gene [(0, 1), (0, 2)] 2)])
     = Inr (shatter_and_blend_with_color_alg (grid_substrate False False)
         [(Grid ''Polygon'' True [(0, 0), (0, 1)], 1)] (Grid ''Polygon'' True [(0, 1), (0, 2)]) 2
         ''or'' max_min)"
    using step ev by simp
  show ?thesis
    using grid_exact eq ev un by (simp only: sp rg)
qed

section \<open>The partition invariant\<close>

declare disjoint_regions.simps(2) [simp del]

lemma disjoint_sets_append:
  "disjoint_sets (As @ Bs) \<longleftrightarrow>
   disjoint_sets As \<and> disjoint_sets Bs \<and> \<Union> (set As) \<inter> \<Union> (set Bs) = {}"
  by (induction As) auto

lemma disjoint_regions_sets:
  "disjoint_regions pts xs = disjoint_sets (map fst (regions pts xs))"
proof (induction xs)
  case Nil
  show ?case by (simp add: regions_def)
next
  case (Cons x xs)
  have "(\<forall>y \<in> set xs. pts (fst x) \<inter> pts (fst y) = {})
      \<longleftrightarrow> pts (fst x) \<inter> \<Union> (set (map (pts \<circ> fst) xs)) = {}"
    by auto
  then show ?case
    using Cons.IH by (simp add: fst_regions disjoint_regions.simps(2))
qed

lemma covered_simps [simp]:
  "covered pts [] = {}"
  "covered pts ((g, c) # xs) = pts g \<union> covered pts xs"
  "covered pts (xs @ ys) = covered pts xs \<union> covered pts ys"
  by (simp_all add: covered_def fst_regions)

lemma disjoint_regions_Cons:
  "disjoint_regions pts ((g, c) # xs) \<longleftrightarrow>
   pts g \<inter> covered pts xs = {} \<and> disjoint_regions pts xs"
  by (simp add: disjoint_regions_sets covered_def fst_regions)

lemma disjoint_regions_ConsD:
  "disjoint_regions pts ((g, c) # xs) \<Longrightarrow>
   pts g \<inter> covered pts xs = {} \<and> disjoint_regions pts xs"
  by (simp only: disjoint_regions_Cons)

lemma disjoint_regions_append:
  "disjoint_regions pts (xs @ ys) \<longleftrightarrow>
   disjoint_regions pts xs \<and> disjoint_regions pts ys \<and> covered pts xs \<inter> covered pts ys = {}"
  by (simp add: disjoint_regions_sets covered_def fst_regions disjoint_sets_append)

lemma disjoint_regions_cong:
  "regions pts xs = regions pts ys \<Longrightarrow> disjoint_regions pts xs = disjoint_regions pts ys"
  by (simp add: disjoint_regions_sets)

text \<open>The shatter step keeps a partition a partition.\<close>

lemma spec_shatter_disjoint:
  assumes ex: "exact_substrate s pts"
  shows "disjoint_regions pts P \<Longrightarrow>
    disjoint_regions pts (spec_shatter s color_alg P b cb) \<and>
    covered pts (spec_shatter s color_alg P b cb) \<subseteq> covered pts P \<union> pts b"
proof (induction P arbitrary: b)
  case Nil
  show ?case by (simp add: disjoint_regions_Cons)
next
  case (Cons x P)
  obtain a col where x: "x = (a, col)" by (cases x)
  from Cons.prems have a: "pts a \<inter> covered pts P = {}" and P: "disjoint_regions pts P"
    using disjoint_regions_ConsD [of pts a _ P] unfolding x by blast+
  show ?case
  proof (cases "is_empty_geom s (safe_intersection s a b)")
    case True
    then have "pts a \<inter> pts b = {}"
      by (simp add: exact_is_empty [OF ex] exact_safe_intersection [OF ex])
    then show ?thesis
      using True a Cons.IH [OF P, of b]
      by (auto simp: x disjoint_regions_Cons)
  next
    case False
    let ?rest = "spec_shatter s color_alg P (safe_difference s b a) cb"
    have ih: "disjoint_regions pts ?rest" "covered pts ?rest \<subseteq> covered pts P \<union> (pts b - pts a)"
      using Cons.IH [OF P, of "safe_difference s b a"]
      by (simp_all add: exact_safe_difference [OF ex])
    have "disjoint_regions pts ((safe_intersection s a b, or_color color_alg col cb) # ?rest)"
      using ih a
      by (auto simp: disjoint_regions_Cons exact_safe_intersection [OF ex])
    moreover have "disjoint_regions pts
        ((safe_difference s a (safe_intersection s a b), col)
         # (safe_intersection s a b, or_color color_alg col cb) # ?rest)"
      using ih a
      by (auto simp: disjoint_regions_Cons exact_safe_intersection [OF ex]
          exact_safe_difference [OF ex])
    moreover have "covered pts
        ((safe_difference s a (safe_intersection s a b), col)
         # (safe_intersection s a b, or_color color_alg col cb) # ?rest)
        \<subseteq> pts a \<union> covered pts P \<union> pts b"
      using ih
      by (auto simp: exact_safe_intersection [OF ex] exact_safe_difference [OF ex])
    moreover have "covered pts ((safe_intersection s a b, or_color color_alg col cb) # ?rest)
        \<subseteq> pts a \<union> covered pts P \<union> pts b"
      using ih
      by (auto simp: exact_safe_intersection [OF ex])
    ultimately show ?thesis
      using False by (simp add: x Let_def)
  qed
qed

lemma shatter_disjoint:
  assumes "exact_substrate s pts" "disjoint_regions pts P"
  shows "disjoint_regions pts (shatter_and_blend_with_color_alg s P b cb ''or'' color_alg)"
  using spec_shatter_disjoint [OF assms, of color_alg b cb]
    disjoint_regions_cong [OF regions_shatter [OF assms(1), of P b cb color_alg]]
  by simp

lemma union_inner_disjoint:
  "exact_substrate s pts \<Longrightarrow> disjoint_regions pts cur \<Longrightarrow>
   disjoint_regions pts (union_inner s color_alg cur next_child)"
  by (induction next_child arbitrary: cur) (auto simp: shatter_disjoint)

lemma union_outer_disjoint:
  "exact_substrate s pts \<Longrightarrow> disjoint_regions pts cur \<Longrightarrow>
   disjoint_regions pts (union_outer s color_alg cur others)"
  by (induction others arbitrary: cur) (auto simp: union_inner_disjoint)

text \<open>The cross product of two partitions is a partition.\<close>

lemma cross_product_Nil [simp]: "cross_product s color_alg [] next_child = []"
  by (simp add: cross_product_def)

lemma cross_product_single_Cons:
  "cross_product s color_alg [(a, col)] ((b, cb) # next_child) =
   (if \<not> is_empty_geom s (safe_intersection s a b)
    then [(safe_intersection s a b, and_color color_alg col cb)] else [])
   @ cross_product s color_alg [(a, col)] next_child"
  by (simp add: cross_product_def)

lemma cross_product_single_disjoint:
  assumes ex: "exact_substrate s pts"
  shows "disjoint_regions pts next_child \<Longrightarrow>
    disjoint_regions pts (cross_product s color_alg [(a, col)] next_child) \<and>
    covered pts (cross_product s color_alg [(a, col)] next_child)
      \<subseteq> pts a \<inter> covered pts next_child"
proof (induction next_child)
  case Nil
  show ?case by (simp add: cross_product_def)
next
  case (Cons y next_child)
  obtain b cb where y: "y = (b, cb)" by (cases y)
  from Cons.prems have b: "pts b \<inter> covered pts next_child = {}"
    and n: "disjoint_regions pts next_child"
    using disjoint_regions_ConsD [of pts b _ next_child] unfolding y by blast+
  show ?case
    using Cons.IH [OF n] b
    by (auto simp: y cross_product_single_Cons disjoint_regions_Cons
        exact_safe_intersection [OF ex])
qed

lemma cross_product_disjoint:
  assumes ex: "exact_substrate s pts" and n: "disjoint_regions pts next_child"
  shows "disjoint_regions pts cur \<Longrightarrow>
    disjoint_regions pts (cross_product s color_alg cur next_child) \<and>
    covered pts (cross_product s color_alg cur next_child) \<subseteq> covered pts cur"
proof (induction cur)
  case Nil
  show ?case by simp
next
  case (Cons x cur)
  obtain a col where x: "x = (a, col)" by (cases x)
  from Cons.prems have a: "pts a \<inter> covered pts cur = {}" and c: "disjoint_regions pts cur"
    using disjoint_regions_ConsD [of pts a _ cur] unfolding x by blast+
  show ?case
    using Cons.IH [OF c] a cross_product_single_disjoint [OF ex n, of color_alg a col]
    by (auto simp: x cross_product_Cons [of s color_alg "(a, col)" cur] disjoint_regions_append)
qed

lemma inter_outer_disjoint:
  assumes ex: "exact_substrate s pts"
  shows "disjoint_regions pts cur \<Longrightarrow> \<forall>r \<in> set others. disjoint_regions pts r \<Longrightarrow>
    disjoint_regions pts (inter_outer s color_alg cur others)"
proof (induction others arbitrary: cur)
  case Nil
  then show ?case by simp
next
  case (Cons next_child others)
  have "disjoint_regions pts (cross_product s color_alg cur next_child)"
    using cross_product_disjoint [OF ex _ Cons.prems(1)] Cons.prems(2) by simp
  then show ?case
    using Cons.IH Cons.prems(2) by (simp add: inter_a_eq)
qed

text \<open>Subtracting from every piece of a partition leaves a partition.\<close>

lemma diff_pieces_disjoint:
  assumes ex: "exact_substrate s pts"
  shows "disjoint_regions pts cur \<Longrightarrow>
    disjoint_regions pts (diff_loop s t cur []) \<and>
    covered pts (diff_loop s t cur []) \<subseteq> covered pts cur"
proof (induction cur)
  case Nil
  show ?case by simp
next
  case (Cons x cur)
  obtain a col where x: "x = (a, col)" by (cases x)
  from Cons.prems have a: "pts a \<inter> covered pts cur = {}" and c: "disjoint_regions pts cur"
    using disjoint_regions_ConsD [of pts a _ cur] unfolding x by blast+
  have unfold: "diff_loop s t ((a, col) # cur) [] =
      (if \<not> is_empty_geom s (safe_difference s a t) then [(safe_difference s a t, col)] else [])
      @ diff_loop s t cur []"
    by (simp add: diff_loop_eq)
  show ?case
    using Cons.IH [OF c] a
    by (auto simp: x unfold disjoint_regions_Cons exact_safe_difference [OF ex]
        simp del: diff_loop.simps)
qed

lemma difference_branch_disjoint:
  "exact_substrate s pts \<Longrightarrow> disjoint_regions pts cur \<Longrightarrow>
   disjoint_regions pts (difference_branch s cur others)"
  by (auto simp: difference_branch_def Let_def diff_pieces_disjoint split: sum.splits)

lemma combine_disjoint:
  "exact_substrate s pts \<Longrightarrow> \<forall>r \<in> set children_results. disjoint_regions pts r \<Longrightarrow>
   disjoint_regions pts (combine s color_alg op_kind children_results)"
  by (cases children_results)
     (auto simp: union_outer_disjoint inter_outer_disjoint difference_branch_disjoint)

lemma process_node_disjoint:
  assumes ex: "exact_substrate s pts"
  shows "process_node s color_alg n = Inr out \<Longrightarrow> disjoint_regions pts out"
proof (induction n arbitrary: out)
  case (PrimitiveNode gene)
  then show ?case by (auto simp: disjoint_regions_Cons split: sum.splits if_splits)
next
  case (OpNode op_kind children)
  from OpNode.prems obtain children_results where
    cr: "collect_results (map (process_node s color_alg) children) = Inr children_results"
    and out: "out = combine s color_alg op_kind children_results"
    by (auto split: sum.splits)
  have "\<forall>r \<in> set children_results. disjoint_regions pts r"
  proof
    fix r assume "r \<in> set children_results"
    with cr have "Inr r \<in> set (map (process_node s color_alg) children)"
      using collect_results_set by blast
    then obtain child where "child \<in> set children" "process_node s color_alg child = Inr r"
      by auto
    then show "disjoint_regions pts r" using OpNode.IH by blast
  qed
  then show ?case using out combine_disjoint [OF ex] by blast
qed

text \<open>
  Claim C1. On an exact substrate the sequence that evaluation returns is a partition:
  the regions at any two distinct positions share no point. Evaluation returns such a
  sequence for every genome whose genes have a known kind.
\<close>

theorem partition_invariant:
  assumes "exact_substrate s pts"
  shows "(\<forall>out. process_node s color_alg n = Inr out \<longrightarrow> disjoint_regions pts out) \<and>
    ((\<forall>gene \<in> set (genes_of n). known_kind gene) \<longrightarrow>
       (\<exists>out. process_node s color_alg n = Inr out \<and> disjoint_regions pts out))"
  using process_node_disjoint [OF assms, of color_alg n]
    process_node_returns [of n s color_alg]
  by blast

theorem partition_invariant_witness:
  "exact_substrate (grid_substrate False False) grid_pts \<and>
   list_all known_kind (genes_of sample_genome) \<and>
   process_node (grid_substrate False False) max_min sample_genome
     = Inr [(Grid ''Polygon'' True [(0, 0)], 1), (Grid ''Polygon'' True [(0, 1)], 2)] \<and>
   disjoint_regions grid_pts
     [(Grid ''Polygon'' True [(0, 0)], 1::nat), (Grid ''Polygon'' True [(0, 1)], 2)]"
proof -
  have k: "\<forall>gene \<in> set (genes_of sample_genome). known_kind gene"
    by (simp add: sample_genome_def known_kind_def cell_gene_def)
  have ev: "process_node (grid_substrate False False) max_min sample_genome
     = Inr [(Grid ''Polygon'' True [(0, 0)], 1), (Grid ''Polygon'' True [(0, 1)], 2)]"
    by code_simp
  have "disjoint_regions grid_pts
     [(Grid ''Polygon'' True [(0, 0)], 1::nat), (Grid ''Polygon'' True [(0, 1)], 2)]"
    using partition_invariant [OF grid_exact, of max_min sample_genome] ev by blast
  then show ?thesis
    using grid_exact k ev by (simp add: list_all_iff)
qed

section \<open>Evolving the population\<close>

text \<open>
  Claim C6. With an empty selection, or a selection holding an index below zero or not
  below the population length, \<^verbatim>\<open>evolve\<close> raises \<open>InvalidSelection\<close> and leaves the
  population and the generation counter as they were. With a non-empty selection of
  valid indices it returns the new population, installs it, and the generation counter
  grows by exactly one.
\<close>

theorem evolve_selection:
  "((selected_indices = {} \<or>
     (\<exists>i \<in> selected_indices. i < 0 \<or> int (length (population (pop_state self))) \<le> i))
      \<longrightarrow> snd (evolve breed self selected_indices) = Inl InvalidSelection
          \<and> population (pop_state (fst (evolve breed self selected_indices)))
              = population (pop_state self)
          \<and> generation (fst (evolve breed self selected_indices)) = generation self) \<and>
   ((selected_indices \<noteq> {} \<and>
     (\<forall>i \<in> selected_indices. 0 \<le> i \<and> i < int (length (population (pop_state self)))))
      \<longrightarrow> snd (evolve breed self selected_indices)
            = Inr (fst (breed (population (pop_state self)) selected_indices
                          (rng (pop_state self))))
          \<and> population (pop_state (fst (evolve breed self selected_indices)))
              = fst (breed (population (pop_state self)) selected_indices
                       (rng (pop_state self)))
          \<and> generation (fst (evolve breed self selected_indices)) = generation self + 1)"
  by (auto simp: evolve_def pop_state_evolve_def valid_selection_def Let_def split: prod.splits)

theorem evolve_selection_witness:
  "snd (evolve shift_breed adapter0 {}) = Inl InvalidSelection \<and>
   generation (fst (evolve shift_breed adapter0 {})) = 4 \<and>
   snd (evolve shift_breed adapter0 {0, 3}) = Inl InvalidSelection \<and>
   population (pop_state (fst (evolve shift_breed adapter0 {0, 3}))) = [10, 20, 30] \<and>
   generation (fst (evolve shift_breed adapter0 {0, 3})) = 4 \<and>
   snd (evolve shift_breed adapter0 {0, 2}) = Inr [17, 27, 37] \<and>
   generation (fst (evolve shift_breed adapter0 {0, 2})) = 5"
  using evolve_selection [of "{}" adapter0 shift_breed]
    evolve_selection [of "{0, 3}" adapter0 shift_breed]
    evolve_selection [of "{0, 2}" adapter0 shift_breed]
  by (simp add: adapter0_def shift_breed_def)

end
